theory Spec2Isabelle
  imports Main
begin

section \<open>Schemas and collaborators of the summaries router\<close>

text \<open>
  The router \<^verbatim>\<open>src/project/app/api/summaries.py\<close> has five handlers:
  \<^verbatim>\<open>create_summary\<close>, \<^verbatim>\<open>read_summary\<close>, \<^verbatim>\<open>read_all_summaries\<close>,
  \<^verbatim>\<open>remove_summary\<close> and \<^verbatim>\<open>update_summary\<close>. They are embedded below as
  state-passing functions over a persistence state \<open>'db\<close>; an exception raised by a
  handler (or by the validation of its path parameter) is the \<open>Inl\<close> branch of the
  result.
\<close>

text \<open>
  Modelled from the spec: the schema \<^verbatim>\<open>SummaryPayloadSchema\<close> of
  \<^verbatim>\<open>app.models.pydantic\<close> is imported by the router but is not part of the sources.
  Its fields are the three the create handler reads: url, summarizer_specifier and
  sentence_count. A value of the type is a payload that has passed the schema's
  validation, as the handler receives it; \<^verbatim>\<open>str(payload.url)\<close> and
  \<^verbatim>\<open>int(payload.sentence_count)\<close> are the identity on this representation.
\<close>

record SummaryPayloadSchema =
  payload_url :: string
  payload_summarizer_specifier :: string
  payload_sentence_count :: int

text \<open>
  Modelled from the spec: the schema \<^verbatim>\<open>SummaryResponseSchema\<close> of
  \<^verbatim>\<open>app.models.pydantic\<close> is not part of the sources. Its fields are the four the
  create handler passes to its constructor; the create response of the spec is
  (id, url, summarizer_specifier, sentence_count).
\<close>

record SummaryResponseSchema =
  response_url :: string
  response_id :: int
  response_summarizer_specifier :: string
  response_sentence_count :: int

text \<open>
  Modelled from the spec: the schema \<^verbatim>\<open>SummaryUpdatePayloadSchema\<close> of
  \<^verbatim>\<open>app.models.pydantic\<close> is not part of the sources. The update request carries the
  two required strings url and summary.
\<close>

record SummaryUpdatePayloadSchema =
  new_url :: string
  new_summary :: string

text \<open>
  Modelled from the spec: the schema \<^verbatim>\<open>SummarySchema\<close> of \<^verbatim>\<open>app.models.tortoise\<close> is
  not part of the sources. A summary of the data model has the fields id, url, summary
  and created_at (a timestamp, here a number of clock ticks).
\<close>

record SummarySchema =
  rec_id :: int
  rec_url :: string
  rec_summary :: string
  rec_created_at :: nat

text \<open>
  \<^verbatim>\<open>background_tasks.add_task(generate_summary, summary_id, url, specifier, count)\<close>
  stores the call without running it: a task is the recorded argument tuple of a
  deferred call to \<^verbatim>\<open>generate_summary\<close>, and the \<^verbatim>\<open>BackgroundTasks\<close> object is
  the list of the tasks added so far.
\<close>

datatype background_task =
  generate_summary_call (task_summary_id: int) (task_url: string)
    (task_summarizer_specifier: string) (task_sentence_count: int)

definition add_task :: "background_task list \<Rightarrow> background_task \<Rightarrow> background_task list" where
  "add_task background_tasks t = background_tasks @ [t]"

text \<open>
  The module \<^verbatim>\<open>app.api.crud\<close> is not part of the sources. The handlers take it as a
  parameter: a record of the five operations they call, each free to read and change
  the persistence state and to return any value of its result type. What
  \<^verbatim>\<open>crud.delete\<close> returns is the boolean of the persistence contract. A looked-up
  summary is a populated object, so Python's \<^verbatim>\<open>not summary\<close> holds exactly for
  \<^verbatim>\<open>None\<close>.
\<close>

record 'db crud =
  crud_post :: "SummaryPayloadSchema \<Rightarrow> 'db \<Rightarrow> int \<times> 'db"
  crud_get :: "int \<Rightarrow> 'db \<Rightarrow> SummarySchema option \<times> 'db"
  crud_get_all :: "'db \<Rightarrow> SummarySchema list \<times> 'db"
  crud_delete :: "int \<Rightarrow> 'db \<Rightarrow> bool \<times> 'db"
  crud_put :: "int \<Rightarrow> SummaryUpdatePayloadSchema \<Rightarrow> 'db \<Rightarrow> SummarySchema option \<times> 'db"

text \<open>
  The two ways a request fails: the path parameter violates \<^verbatim>\<open>Path(gt=0)\<close> (the
  framework's request validation error), or the handler raises
  \<^verbatim>\<open>SummaryNotFoundException\<close>.
\<close>

datatype api_error = RequestValidationError | SummaryNotFoundException

section \<open>The handlers\<close>

definition create_summary ::
  "'db crud \<Rightarrow> SummaryPayloadSchema \<Rightarrow> background_task list \<Rightarrow> 'db
    \<Rightarrow> (SummaryResponseSchema \<times> background_task list) \<times> 'db" where
  "create_summary crud payload background_tasks db =
     (let (summary_id, db1) = crud_post crud payload db;
          background_tasks1 = add_task background_tasks
            (generate_summary_call summary_id (payload_url payload)
               (payload_summarizer_specifier payload) (payload_sentence_count payload));
          response = \<lparr>response_url = payload_url payload,
                      response_id = summary_id,
                      response_summarizer_specifier = payload_summarizer_specifier payload,
                      response_sentence_count = payload_sentence_count payload\<rparr>
      in ((response, background_tasks1), db1))"

definition read_summary :: "'db crud \<Rightarrow> int \<Rightarrow> 'db \<Rightarrow> (api_error + SummarySchema) \<times> 'db" where
  "read_summary crud i db =
     (if \<not> 0 < i then (Inl RequestValidationError, db)
      else let (summary, db1) = crud_get crud i db in
        (case summary of
           None \<Rightarrow> (Inl SummaryNotFoundException, db1)
         | Some s \<Rightarrow> (Inr s, db1)))"

definition read_all_summaries :: "'db crud \<Rightarrow> 'db \<Rightarrow> SummarySchema list \<times> 'db" where
  "read_all_summaries crud db = crud_get_all crud db"

definition remove_summary :: "'db crud \<Rightarrow> int \<Rightarrow> 'db \<Rightarrow> (api_error + SummarySchema) \<times> 'db" where
  "remove_summary crud i db =
     (if \<not> 0 < i then (Inl RequestValidationError, db)
      else let (summary, db1) = crud_get crud i db in
        (case summary of
           None \<Rightarrow> (Inl SummaryNotFoundException, db1)
         | Some s \<Rightarrow> (let (_, db2) = crud_delete crud i db1 in (Inr s, db2))))"

definition update_summary ::
  "'db crud \<Rightarrow> int \<Rightarrow> SummaryUpdatePayloadSchema \<Rightarrow> 'db \<Rightarrow> (api_error + SummarySchema) \<times> 'db" where
  "update_summary crud i payload db =
     (if \<not> 0 < i then (Inl RequestValidationError, db)
      else let (summary, db1) = crud_put crud i payload db in
        (case summary of
           None \<Rightarrow> (Inl SummaryNotFoundException, db1)
         | Some s \<Rightarrow> (Inr s, db1)))"

text \<open>
  Modelled from the spec: the exception \<^verbatim>\<open>SummaryNotFoundException\<close> of
  \<^verbatim>\<open>app.api.custom_exceptions\<close> is not part of the sources. The spec gives the status of
  each failure: a validation error is of the 422 class, not-found is 404.
\<close>

definition error_status :: "api_error \<Rightarrow> nat" where
  "error_status e = (case e of RequestValidationError \<Rightarrow> 422 | SummaryNotFoundException \<Rightarrow> 404)"

text \<open>
  The status of a response: the route's success code (\<^verbatim>\<open>status_code=201\<close> on the POST
  route, the framework's 200 on the routes that declare none) when the handler returns,
  the status of the error when it raises.
\<close>

definition http_status :: "nat \<Rightarrow> api_error + 'a \<Rightarrow> nat" where
  "http_status ok r = (case r of Inl e \<Rightarrow> error_status e | Inr _ \<Rightarrow> ok)"

section \<open>The persistence and summarization collaborators\<close>

text \<open>
  The module \<^verbatim>\<open>app.api.crud\<close> and the table behind it are not part of the sources. The
  definitions of this section model them from the persistence contract of the spec:
  \<^verbatim>\<open>insert(url) -> id\<close>, \<^verbatim>\<open>find(id) -> record | absent\<close>, \<^verbatim>\<open>find_all() -> sequence\<close>,
  \<^verbatim>\<open>update(id, url, summary) -> record | absent\<close>, \<^verbatim>\<open>delete(id) -> bool\<close>.
\<close>

text \<open>
  Modelled from the spec: the table of summaries, which is not part of the sources. It
  stores the summary records, returned in insertion order; the persistence layer assigns
  the id on creation, unique and never reused, and sets created_at once. The store
  is the list of records in insertion order, the next id to assign, and the clock that
  stamps \<open>created_at\<close>.
\<close>

record storage =
  records :: "SummarySchema list"
  next_id :: int
  clock :: nat

text \<open>
  Modelled from the spec: \<^verbatim>\<open>crud.post\<close>, which is not part of the sources. It inserts a
  new record with the given url and empty summary text, and returns the newly assigned
  id.
\<close>

definition storage_post :: "SummaryPayloadSchema \<Rightarrow> storage \<Rightarrow> int \<times> storage" where
  "storage_post payload db =
     (next_id db,
      db\<lparr>records := records db @
            [\<lparr>rec_id = next_id db, rec_url = payload_url payload,
              rec_summary = [], rec_created_at = clock db\<rparr>],
         next_id := next_id db + 1\<rparr>)"

text \<open>
  Modelled from the spec: \<^verbatim>\<open>crud.get\<close>, which is not part of the sources. It looks the
  record up by id: the record, or absent.
\<close>

definition storage_get :: "int \<Rightarrow> storage \<Rightarrow> SummarySchema option \<times> storage" where
  "storage_get i db = (find (\<lambda>r. rec_id r = i) (records db), db)"

text \<open>
  Modelled from the spec: \<^verbatim>\<open>crud.get_all\<close>, which is not part of the sources. It returns
  every stored record, in insertion order.
\<close>

definition storage_get_all :: "storage \<Rightarrow> SummarySchema list \<times> storage" where
  "storage_get_all db = (records db, db)"

text \<open>
  Modelled from the spec: \<^verbatim>\<open>crud.delete\<close>, which is not part of the sources. It removes
  the record with the id from the store and reports whether there was one.
\<close>

definition storage_delete :: "int \<Rightarrow> storage \<Rightarrow> bool \<times> storage" where
  "storage_delete i db =
     (find (\<lambda>r. rec_id r = i) (records db) \<noteq> None,
      db\<lparr>records := filter (\<lambda>r. rec_id r \<noteq> i) (records db)\<rparr>)"

text \<open>
  Modelled from the spec: what the persistence's update does to one record. It overwrites
  both the url and the summary with those of the payload; id and created_at are
  immutable.
\<close>

definition overwrite :: "SummaryUpdatePayloadSchema \<Rightarrow> SummarySchema \<Rightarrow> SummarySchema" where
  "overwrite payload r = r\<lparr>rec_url := new_url payload, rec_summary := new_summary payload\<rparr>"

text \<open>
  Modelled from the spec: \<^verbatim>\<open>crud.put\<close>, which is not part of the sources. It looks the
  record up by id, absent if there is none; it overwrites the record in the store and
  returns the updated record.
\<close>

definition storage_put ::
  "int \<Rightarrow> SummaryUpdatePayloadSchema \<Rightarrow> storage \<Rightarrow> SummarySchema option \<times> storage" where
  "storage_put i payload db =
     (case find (\<lambda>r. rec_id r = i) (records db) of
        None \<Rightarrow> (None, db)
      | Some r \<Rightarrow>
          (Some (overwrite payload r),
           db\<lparr>records := map (\<lambda>x. if rec_id x = i then overwrite payload x else x) (records db)\<rparr>))"

text \<open>
  Modelled from the spec: the module \<^verbatim>\<open>app.api.crud\<close> as the handlers import it, made
  of the five operations above.
\<close>

definition storage_crud :: "storage crud" where
  "storage_crud =
     \<lparr>crud_post = storage_post, crud_get = storage_get, crud_get_all = storage_get_all,
      crud_delete = storage_delete, crud_put = storage_put\<rparr>"

text \<open>
  Modelled from the spec: the table before any request; the first id assigned is 1, as
  in the spec's example.
\<close>

definition empty_storage :: storage where
  "empty_storage = \<lparr>records = [], next_id = 1, clock = 0\<rparr>"

text \<open>
  The store's invariant: ids are unique, positive, and below the next id to assign,
  which is positive too.
\<close>

definition storage_ok :: "storage \<Rightarrow> bool" where
  "storage_ok db \<longleftrightarrow>
     distinct (map rec_id (records db)) \<and> 0 < next_id db \<and>
     (\<forall>r \<in> set (records db). 0 < rec_id r \<and> rec_id r < next_id db)"

text \<open>
  Modelled from the spec: the summarization collaborator \<^verbatim>\<open>app.summarizer.generate_summary\<close>
  is not part of the sources. \<^verbatim>\<open>generate(id, url, specifier, sentence_count)\<close> produces
  the summary text and calls the persistence's update to set it; a failure inside it is
  not propagated and leaves the store as it is. The text generation itself is the
  parameter \<open>summarize\<close>, \<open>None\<close> when it fails.
\<close>

definition generate_summary ::
  "(string \<Rightarrow> string \<Rightarrow> int \<Rightarrow> string option) \<Rightarrow> 'db crud \<Rightarrow> background_task \<Rightarrow> 'db \<Rightarrow> 'db" where
  "generate_summary summarize crud t db =
     (case summarize (task_url t) (task_summarizer_specifier t) (task_sentence_count t) of
        None \<Rightarrow> db
      | Some generated \<Rightarrow>
          snd (crud_put crud (task_summary_id t)
                 \<lparr>new_url = task_url t, new_summary = generated\<rparr> db))"

section \<open>The service as a transition system\<close>

text \<open>
  A state of the service is the store and the deferred calls handed to the hosting
  runtime and not yet run. A request runs its handler on the store; the tasks the create
  handler added to its (per-request, initially empty) \<^verbatim>\<open>BackgroundTasks\<close> are handed to
  the runtime after the response. \<open>Background k\<close> is the runtime running the \<open>k\<close>-th
  pending call, at any later time and in any order; \<open>Tick\<close> is time passing.
\<close>

record system =
  sys_db :: storage
  sys_pending :: "background_task list"

datatype request =
  Create SummaryPayloadSchema
  | Get int
  | GetAll
  | Update int SummaryUpdatePayloadSchema
  | Delete int
  | Background nat
  | Tick

datatype reply =
  Created SummaryResponseSchema
  | Got "api_error + SummarySchema"
  | GotAll "SummarySchema list"
  | Updated "api_error + SummarySchema"
  | Deleted "api_error + SummarySchema"
  | Idle

definition initial_system :: system where
  "initial_system = \<lparr>sys_db = empty_storage, sys_pending = []\<rparr>"

fun step :: "(string \<Rightarrow> string \<Rightarrow> int \<Rightarrow> string option) \<Rightarrow> request \<Rightarrow> system \<Rightarrow> reply \<times> system" where
  "step summarize (Create payload) s =
     (let ((response, tasks), db1) = create_summary storage_crud payload [] (sys_db s)
      in (Created response, \<lparr>sys_db = db1, sys_pending = sys_pending s @ tasks\<rparr>))"
| "step summarize (Get i) s =
     (let (r, db1) = read_summary storage_crud i (sys_db s) in (Got r, s\<lparr>sys_db := db1\<rparr>))"
| "step summarize GetAll s =
     (let (rs, db1) = read_all_summaries storage_crud (sys_db s) in (GotAll rs, s\<lparr>sys_db := db1\<rparr>))"
| "step summarize (Update i payload) s =
     (let (r, db1) = update_summary storage_crud i payload (sys_db s)
      in (Updated r, s\<lparr>sys_db := db1\<rparr>))"
| "step summarize (Delete i) s =
     (let (r, db1) = remove_summary storage_crud i (sys_db s) in (Deleted r, s\<lparr>sys_db := db1\<rparr>))"
| "step summarize (Background k) s =
     (if k < length (sys_pending s)
      then (Idle, \<lparr>sys_db = generate_summary summarize storage_crud (sys_pending s ! k) (sys_db s),
                   sys_pending = take k (sys_pending s) @ drop (Suc k) (sys_pending s)\<rparr>)
      else (Idle, s))"
| "step summarize Tick s = (Idle, s\<lparr>sys_db := (sys_db s)\<lparr>clock := Suc (clock (sys_db s))\<rparr>\<rparr>)"

fun run ::
  "(string \<Rightarrow> string \<Rightarrow> int \<Rightarrow> string option) \<Rightarrow> request list \<Rightarrow> system \<Rightarrow> reply list \<times> system" where
  "run summarize [] s = ([], s)"
| "run summarize (q # qs) s =
     (let (r, s1) = step summarize q s; (rs, s2) = run summarize qs s1 in (r # rs, s2))"

text \<open>The ids assigned by the creates, and the ids removed by the deletes, of a run.\<close>

fun created_ids :: "reply list \<Rightarrow> int list" where
  "created_ids [] = []"
| "created_ids (Created response # rs) = response_id response # created_ids rs"
| "created_ids (_ # rs) = created_ids rs"

fun deleted_ids :: "reply list \<Rightarrow> int list" where
  "deleted_ids [] = []"
| "deleted_ids (Deleted (Inr s) # rs) = rec_id s # deleted_ids rs"
| "deleted_ids (_ # rs) = deleted_ids rs"

definition creates :: "reply list \<Rightarrow> nat" where
  "creates rs = length (created_ids rs)"

definition deletes :: "reply list \<Rightarrow> nat" where
  "deletes rs = length (deleted_ids rs)"

section \<open>Response bodies\<close>

text \<open>The values of the fields of a response body.\<close>

datatype json_value = Json_int int | Json_str string | Json_datetime nat

text \<open>
  Modelled from the spec: the serialisation of \<^verbatim>\<open>SummarySchema\<close>
  (\<^verbatim>\<open>app.models.tortoise\<close>), which is not part of the sources. The routes GET, PUT and
  DELETE \<^verbatim>\<open>/{id}/\<close> all declare \<^verbatim>\<open>response_model=SummarySchema\<close>, so all three send the
  value their handler returns with the fields of the data model: id, url, summary,
  created_at.
\<close>

definition SummarySchema_body :: "SummarySchema \<Rightarrow> (string \<times> json_value) list" where
  "SummarySchema_body s =
     [(''id'', Json_int (rec_id s)), (''url'', Json_str (rec_url s)),
      (''summary'', Json_str (rec_summary s)), (''created_at'', Json_datetime (rec_created_at s))]"

text \<open>
  What a route with \<^verbatim>\<open>response_model=SummarySchema\<close> sends for its handler's result:
  the serialised summary, or the error.
\<close>

definition response_body ::
  "api_error + SummarySchema \<Rightarrow> api_error + (string \<times> json_value) list" where
  "response_body r = (case r of Inl e \<Rightarrow> Inl e | Inr s \<Rightarrow> Inr (SummarySchema_body s))"

section \<open>Example values\<close>

text \<open>
  The request and the record of the spec's example, a store holding that record, and a
  persistence whose delete removes nothing and reports failure.
\<close>

definition example_payload :: SummaryPayloadSchema where
  "example_payload =
     \<lparr>payload_url = ''https://example.com'', payload_summarizer_specifier = ''default'',
      payload_sentence_count = 3\<rparr>"

definition example_record :: SummarySchema where
  "example_record =
     \<lparr>rec_id = 1, rec_url = ''https://example.com'', rec_summary = [], rec_created_at = 0\<rparr>"

definition example_storage :: storage where
  "example_storage = \<lparr>records = [example_record], next_id = 2, clock = 0\<rparr>"

definition failing_delete_crud :: "storage crud" where
  "failing_delete_crud = storage_crud\<lparr>crud_delete := (\<lambda>i db. (False, db))\<rparr>"

definition example_summarize :: "string \<Rightarrow> string \<Rightarrow> int \<Rightarrow> string option" where
  "example_summarize u sp n = Some ''text''"

section \<open>The handlers on the store\<close>

lemma storage_crud_sel [simp]:
  "crud_post storage_crud = storage_post"
  "crud_get storage_crud = storage_get"
  "crud_get_all storage_crud = storage_get_all"
  "crud_delete storage_crud = storage_delete"
  "crud_put storage_crud = storage_put"
  by (simp_all add: storage_crud_def)

lemma find_by_id:
  "distinct (map rec_id xs) \<Longrightarrow> r \<in> set xs \<Longrightarrow> find (\<lambda>x. rec_id x = rec_id r) xs = Some r"
  by (induction xs) force+

lemma find_absent: "i \<notin> rec_id ` set xs \<Longrightarrow> find (\<lambda>x. rec_id x = i) xs = None"
  by (induction xs) auto

lemma find_Some_id: "find (\<lambda>x. rec_id x = i) xs = Some r \<Longrightarrow> r \<in> set xs \<and> rec_id r = i"
  by (induction xs) (auto split: if_splits)

lemma read_summary_storage:
  "read_summary storage_crud i db =
     (if \<not> 0 < i then (Inl RequestValidationError, db)
      else case find (\<lambda>r. rec_id r = i) (records db) of
             None \<Rightarrow> (Inl SummaryNotFoundException, db)
           | Some s \<Rightarrow> (Inr s, db))"
  by (simp add: read_summary_def storage_get_def)

lemma remove_summary_storage:
  "remove_summary storage_crud i db =
     (if \<not> 0 < i then (Inl RequestValidationError, db)
      else case find (\<lambda>r. rec_id r = i) (records db) of
             None \<Rightarrow> (Inl SummaryNotFoundException, db)
           | Some s \<Rightarrow> (Inr s, db\<lparr>records := filter (\<lambda>r. rec_id r \<noteq> i) (records db)\<rparr>))"
  by (simp add: remove_summary_def storage_get_def storage_delete_def split: option.splits)

lemma update_summary_storage:
  "update_summary storage_crud i payload db =
     (if \<not> 0 < i then (Inl RequestValidationError, db)
      else case find (\<lambda>r. rec_id r = i) (records db) of
             None \<Rightarrow> (Inl SummaryNotFoundException, db)
           | Some s \<Rightarrow> (Inr (overwrite payload s),
               db\<lparr>records := map (\<lambda>x. if rec_id x = i then overwrite payload x else x) (records db)\<rparr>))"
  by (simp add: update_summary_def storage_put_def split: option.splits)

lemma create_summary_storage:
  "create_summary storage_crud payload background_tasks db =
     ((\<lparr>response_url = payload_url payload, response_id = next_id db,
        response_summarizer_specifier = payload_summarizer_specifier payload,
        response_sentence_count = payload_sentence_count payload\<rparr>,
       background_tasks @
         [generate_summary_call (next_id db) (payload_url payload)
            (payload_summarizer_specifier payload) (payload_sentence_count payload)]),
      db\<lparr>records := records db @
            [\<lparr>rec_id = next_id db, rec_url = payload_url payload,
              rec_summary = [], rec_created_at = clock db\<rparr>],
         next_id := next_id db + 1\<rparr>)"
  by (simp add: create_summary_def storage_post_def add_task_def)

lemma rec_id_overwrite [simp]: "rec_id (overwrite p r) = rec_id r"
  by (simp add: overwrite_def)

lemma map_rec_id_overwrite [simp]:
  "map rec_id (map (\<lambda>x. if rec_id x = i then overwrite p x else x) xs) = map rec_id xs"
  by (induction xs) auto

lemma storage_put_ids:
  "map rec_id (records (snd (storage_put i p db))) = map rec_id (records db)"
  "next_id (snd (storage_put i p db)) = next_id db"
  by (simp_all add: storage_put_def split: option.splits)

lemma generate_summary_ids:
  "map rec_id (records (generate_summary f storage_crud t db)) = map rec_id (records db)"
  "next_id (generate_summary f storage_crud t db) = next_id db"
  by (simp_all add: generate_summary_def storage_put_ids split: option.splits)

lemma storage_ok_ids:
  "storage_ok db \<longleftrightarrow> distinct (map rec_id (records db)) \<and> 0 < next_id db \<and>
     (\<forall>i \<in> set (map rec_id (records db)). 0 < i \<and> i < next_id db)"
  by (auto simp: storage_ok_def)

lemma map_rec_id_filter:
  "map rec_id (filter (\<lambda>r. rec_id r \<noteq> i) xs) = filter (\<lambda>j. j \<noteq> i) (map rec_id xs)"
  by (induction xs) auto

text \<open>
  What one transition does to the ids in the store and to the next id to assign.
\<close>

lemma step_ids:
  assumes "step f q s = (r, s')"
  shows "map rec_id (records (sys_db s')) =
           filter (\<lambda>i. i \<notin> set (deleted_ids [r])) (map rec_id (records (sys_db s))) @ created_ids [r]"
    and "next_id (sys_db s') = next_id (sys_db s) + int (length (created_ids [r]))"
    and "set (created_ids [r]) \<subseteq> {next_id (sys_db s)}"
    and "set (deleted_ids [r]) \<subseteq> set (map rec_id (records (sys_db s)))"
  using assms
  by (cases q; auto simp: create_summary_storage read_summary_storage remove_summary_storage
        update_summary_storage read_all_summaries_def storage_get_all_def generate_summary_ids
        map_rec_id_filter
        split: if_splits option.splits dest!: find_Some_id)+


lemma created_ids_Cons: "created_ids (r # rs) = created_ids [r] @ created_ids rs"
  by (cases r) simp_all

lemma deleted_ids_Cons: "deleted_ids (r # rs) = deleted_ids [r] @ deleted_ids rs"
proof (cases r)
  case (Deleted x)
  then show ?thesis by (cases x) simp_all
qed simp_all

lemma distinct_created_ids_single [simp]: "distinct (created_ids [r])"
  by (cases r) simp_all

lemma distinct_deleted_ids_single [simp]: "distinct (deleted_ids [r])"
proof (cases r)
  case (Deleted x)
  then show ?thesis by (cases x) simp_all
qed simp_all

lemma length_filter_notin:
  assumes "distinct xs" and "distinct ds" and "set ds \<subseteq> set xs"
  shows "length (filter (\<lambda>i. i \<notin> set ds) xs) + length ds = length xs"
proof -
  have "length (filter (\<lambda>i. i \<notin> set ds) xs) = card ({i. i \<notin> set ds} \<inter> set xs)"
    by (rule distinct_length_filter [OF assms(1)])
  also have "{i. i \<notin> set ds} \<inter> set xs = set xs - set ds" by auto
  also have "card (set xs - set ds) = card (set xs) - card (set ds)"
    by (rule card_Diff_subset) (use assms in auto)
  finally show ?thesis
    using assms card_mono [of "set xs" "set ds"] by (simp add: distinct_card)
qed

lemma step_ok:
  assumes "storage_ok (sys_db s)" and "step f q s = (r, s')"
  shows "storage_ok (sys_db s')"
proof -
  note st = step_ids [OF assms(2)]
  have d: "distinct (map rec_id (records (sys_db s)))"
    and p: "0 < next_id (sys_db s)"
    and b: "\<forall>i \<in> set (map rec_id (records (sys_db s))). 0 < i \<and> i < next_id (sys_db s)"
    using assms(1) by (simp_all add: storage_ok_ids)
  have c: "i = next_id (sys_db s) \<and> 0 < length (created_ids [r])" if "i \<in> set (created_ids [r])" for i
    using that st(3) by (cases "created_ids [r]") auto
  have "distinct (map rec_id (records (sys_db s')))"
    unfolding st(1) using d b c by (auto simp del: set_map)
  moreover have "\<forall>i \<in> set (map rec_id (records (sys_db s'))). 0 < i \<and> i < next_id (sys_db s')"
    unfolding st(1) st(2) using b p c by (auto simp del: set_map)
  moreover have "0 < next_id (sys_db s')"
    unfolding st(2) using p by simp
  ultimately show ?thesis by (simp add: storage_ok_ids)
qed

lemma step_length:
  assumes "storage_ok (sys_db s)" and "step f q s = (r, s')"
  shows "int (length (records (sys_db s'))) =
           int (length (records (sys_db s))) + int (creates [r]) - int (deletes [r])"
proof -
  note st = step_ids [OF assms(2)]
  have d: "distinct (map rec_id (records (sys_db s)))"
    using assms(1) by (simp add: storage_ok_ids)
  have "length (map rec_id (records (sys_db s'))) + length (deleted_ids [r]) =
          length (map rec_id (records (sys_db s))) + length (created_ids [r])"
    unfolding st(1) using length_filter_notin [OF d _ st(4), of ] by simp
  then show ?thesis by (simp add: creates_def deletes_def)
qed

lemma run_ok:
  "storage_ok (sys_db s) \<Longrightarrow> run f qs s = (rs, s') \<Longrightarrow> storage_ok (sys_db s')"
proof (induction qs arbitrary: s rs s')
  case Nil
  then show ?case by simp
next
  case (Cons q qs)
  obtain r s1 where q: "step f q s = (r, s1)" by (cases "step f q s")
  obtain rs1 s2 where qs: "run f qs s1 = (rs1, s2)" by (cases "run f qs s1")
  from Cons.prems(2) q qs have "s' = s2" by simp
  with Cons.IH [OF step_ok [OF Cons.prems(1) q] qs] show ?case by simp
qed

lemma run_next_id:
  "run f qs s = (rs, s') \<Longrightarrow>
     next_id (sys_db s') = next_id (sys_db s) + int (length (created_ids rs)) \<and>
     (\<forall>k \<in> set (created_ids rs). next_id (sys_db s) \<le> k \<and> k < next_id (sys_db s'))"
proof (induction qs arbitrary: s rs s')
  case Nil
  then show ?case by auto
next
  case (Cons q qs)
  obtain r s1 where q: "step f q s = (r, s1)" by (cases "step f q s")
  obtain rs1 s2 where qs: "run f qs s1 = (rs1, s2)" by (cases "run f qs s1")
  from Cons.prems q qs have e: "s' = s2" "rs = r # rs1" by simp_all
  note st = step_ids [OF q]
  note ih = Cons.IH [OF qs]
  have n: "next_id (sys_db s') = next_id (sys_db s) + int (length (created_ids rs))"
    using ih st(2) e by (simp add: created_ids_Cons [of r rs1])
  have "\<forall>k \<in> set (created_ids rs). next_id (sys_db s) \<le> k \<and> k < next_id (sys_db s')"
  proof
    fix k assume "k \<in> set (created_ids rs)"
    then consider "k \<in> set (created_ids [r])" | "k \<in> set (created_ids rs1)"
      using e by (auto simp: created_ids_Cons [of r rs1])
    then show "next_id (sys_db s) \<le> k \<and> k < next_id (sys_db s')"
    proof cases
      case 1
      then have "k = next_id (sys_db s)" "created_ids [r] \<noteq> []" using st(3) by auto
      then show ?thesis using st(2) ih e by (cases "created_ids [r]") auto
    next
      case 2
      then show ?thesis using ih st(2) e by auto
    qed
  qed
  with n show ?case by simp
qed


lemma run_length:
  "storage_ok (sys_db s) \<Longrightarrow> run f qs s = (rs, s') \<Longrightarrow>
     int (length (records (sys_db s'))) =
       int (length (records (sys_db s))) + int (creates rs) - int (deletes rs)"
proof (induction qs arbitrary: s rs s')
  case Nil
  then show ?case by (auto simp: creates_def deletes_def)
next
  case (Cons q qs)
  obtain r s1 where q: "step f q s = (r, s1)" by (cases "step f q s")
  obtain rs1 s2 where qs: "run f qs s1 = (rs1, s2)" by (cases "run f qs s1")
  from Cons.prems(2) q qs have e: "s' = s2" "rs = r # rs1" by simp_all
  have "creates rs = creates [r] + creates rs1" "deletes rs = deletes [r] + deletes rs1"
    using e by (simp_all add: creates_def deletes_def created_ids_Cons [of r rs1]
        deleted_ids_Cons [of r rs1])
  with Cons.IH [OF step_ok [OF Cons.prems(1) q] qs] step_length [OF Cons.prems(1) q] e
  show ?case by simp
qed

lemma run_ids:
  "storage_ok (sys_db s) \<Longrightarrow> run f qs s = (rs, s') \<Longrightarrow>
     map rec_id (records (sys_db s')) =
       filter (\<lambda>i. i \<notin> set (deleted_ids rs)) (map rec_id (records (sys_db s)) @ created_ids rs)"
proof (induction qs arbitrary: s rs s')
  case Nil
  then show ?case by auto
next
  case (Cons q qs)
  obtain r s1 where q: "step f q s = (r, s1)" by (cases "step f q s")
  obtain rs1 s2 where qs: "run f qs s1 = (rs1, s2)" by (cases "run f qs s1")
  from Cons.prems(2) q qs have e: "s' = s2" "rs = r # rs1" by simp_all
  note st = step_ids [OF q]
  note ih = Cons.IH [OF step_ok [OF Cons.prems(1) q] qs]
  note nx = run_next_id [OF qs]
  have b: "\<forall>i \<in> set (map rec_id (records (sys_db s))). i < next_id (sys_db s)"
    using Cons.prems(1) by (simp add: storage_ok_ids)
  have fresh: "k \<notin> set (deleted_ids [r])"
    if "k \<in> set (created_ids [r]) \<union> set (created_ids rs1)" for k
  proof
    assume "k \<in> set (deleted_ids [r])"
    then have "k < next_id (sys_db s)" using st(4) b by auto
    moreover have "next_id (sys_db s) \<le> k"
      using that st(3) st(2) nx by auto
    ultimately show False by simp
  qed
  have "filter (\<lambda>i. i \<notin> set (deleted_ids [r])) (created_ids [r] @ created_ids rs1) =
          created_ids [r] @ created_ids rs1"
    using fresh by (auto simp: filter_id_conv)
  then have "filter (\<lambda>i. i \<notin> set (deleted_ids rs1)) (created_ids [r] @ created_ids rs1) =
      filter (\<lambda>i. i \<notin> set (deleted_ids [r]) \<and> i \<notin> set (deleted_ids rs1))
        (created_ids [r] @ created_ids rs1)"
    by (metis filter_filter)
  then show ?case
    unfolding e ih st(1) created_ids_Cons [of r rs1] deleted_ids_Cons [of r rs1]
    by (simp add: conj_commute)
qed


lemma find_map_overwrite:
  "find (\<lambda>x. rec_id x = i) (map (\<lambda>x. if rec_id x = i then overwrite p x else x) xs) =
     map_option (overwrite p) (find (\<lambda>x. rec_id x = i) xs)"
  by (induction xs) auto

lemma same_id_same_record:
  "distinct (map rec_id xs) \<Longrightarrow> r \<in> set xs \<Longrightarrow> x \<in> set xs \<Longrightarrow> rec_id x = rec_id r \<longleftrightarrow> x = r"
  by (auto simp: distinct_map dest: inj_onD)

lemma storage_ok_present:
  "storage_ok db \<Longrightarrow> r \<in> set (records db) \<Longrightarrow>
     0 < rec_id r \<and> find (\<lambda>x. rec_id x = rec_id r) (records db) = Some r"
  by (simp add: storage_ok_def find_by_id)

lemma example_storage_ok: "storage_ok example_storage"
  by (simp add: storage_ok_def example_storage_def example_record_def)

lemma empty_storage_ok: "storage_ok empty_storage"
  by (simp add: storage_ok_def empty_storage_def)

text \<open>
  Claim C6. Create first inserts the record, obtaining the assigned id, then adds exactly
  one deferred call to the summarization collaborator, with the arguments (that id, url,
  summarizer specifier, sentence count), to the background tasks, and returns its
  response without running that call: the tasks afterwards are the tasks before plus
  this one call, and the persistence state returned is the one the insert left. This
  holds for every payload and every persistence.
\<close>
theorem create_summary_inserts_then_schedules:
  assumes "crud_post crud payload db = (summary_id, db1)"
  shows "create_summary crud payload background_tasks db =
     ((\<lparr>response_url = payload_url payload, response_id = summary_id,
        response_summarizer_specifier = payload_summarizer_specifier payload,
        response_sentence_count = payload_sentence_count payload\<rparr>,
       background_tasks @
         [generate_summary_call summary_id (payload_url payload)
            (payload_summarizer_specifier payload) (payload_sentence_count payload)]),
      db1)"
  using assms by (simp add: create_summary_def add_task_def)

theorem create_summary_inserts_then_schedules_witness:
  "crud_post storage_crud example_payload empty_storage =
     (1, \<lparr>records = [example_record], next_id = 2, clock = 0\<rparr>) \<and>
   create_summary storage_crud example_payload [] empty_storage =
     ((\<lparr>response_url = ''https://example.com'', response_id = 1,
        response_summarizer_specifier = ''default'', response_sentence_count = 3\<rparr>,
       [generate_summary_call 1 ''https://example.com'' ''default'' 3]),
      \<lparr>records = [example_record], next_id = 2, clock = 0\<rparr>)"
proof -
  have h: "crud_post storage_crud example_payload empty_storage =
     (1, \<lparr>records = [example_record], next_id = 2, clock = 0\<rparr>)"
    by (simp add: storage_post_def example_payload_def empty_storage_def example_record_def)
  show ?thesis
    using h create_summary_inserts_then_schedules [OF h, of "[]"]
    by (simp add: example_payload_def)
qed

text \<open>
  Claim C8. For an id that is not positive, Get, Update and Delete are each rejected with
  the request validation error (status 422) whatever the persistence is and without
  changing its state, so no persistence operation is reached; this error and its status
  differ from the not-found exception and its status 404.
\<close>
theorem nonpositive_id_is_validation_error:
  assumes "i \<le> 0"
  shows "read_summary crud i db = (Inl RequestValidationError, db) \<and>
         update_summary crud i payload db = (Inl RequestValidationError, db) \<and>
         remove_summary crud i db = (Inl RequestValidationError, db) \<and>
         http_status 200 (Inl RequestValidationError :: api_error + SummarySchema) = 422 \<and>
         http_status 200 (Inl SummaryNotFoundException :: api_error + SummarySchema) = 404 \<and>
         RequestValidationError \<noteq> SummaryNotFoundException"
  using assms
  by (simp add: read_summary_def update_summary_def remove_summary_def http_status_def
      error_status_def)

theorem nonpositive_id_is_validation_error_witness:
  "(0::int) \<le> 0 \<and>
   read_summary storage_crud 0 example_storage = (Inl RequestValidationError, example_storage) \<and>
   update_summary storage_crud 0 \<lparr>new_url = ''u'', new_summary = ''s''\<rparr> example_storage =
     (Inl RequestValidationError, example_storage) \<and>
   remove_summary storage_crud 0 example_storage = (Inl RequestValidationError, example_storage)"
  using nonpositive_id_is_validation_error
    [of 0 storage_crud example_storage "\<lparr>new_url = ''u'', new_summary = ''s''\<rparr>"]
  by simp

text \<open>
  Claim C10. When the lookup of a (positive) id succeeds, the delete handler answers with
  status 200 and the record the lookup returned, whatever boolean the persistence's
  delete reports: the reported value \<open>deleted\<close> occurs nowhere in the result.
\<close>
theorem remove_summary_ignores_delete_result:
  assumes "0 < i" and "crud_get crud i db = (Some s, db1)"
    and "crud_delete crud i db1 = (deleted, db2)"
  shows "remove_summary crud i db = (Inr s, db2) \<and>
         http_status 200 (fst (remove_summary crud i db)) = 200"
  using assms by (simp add: remove_summary_def http_status_def)

theorem remove_summary_ignores_delete_result_witness:
  "(0::int) < 1 \<and>
   crud_get failing_delete_crud 1 example_storage = (Some example_record, example_storage) \<and>
   crud_delete failing_delete_crud 1 example_storage = (False, example_storage) \<and>
   remove_summary failing_delete_crud 1 example_storage = (Inr example_record, example_storage) \<and>
   http_status 200 (fst (remove_summary failing_delete_crud 1 example_storage)) = 200"
proof -
  have g: "crud_get failing_delete_crud 1 example_storage = (Some example_record, example_storage)"
    by (simp add: failing_delete_crud_def storage_get_def example_storage_def example_record_def)
  have d: "crud_delete failing_delete_crud 1 example_storage = (False, example_storage)"
    by (simp add: failing_delete_crud_def)
  show ?thesis
    using g d remove_summary_ignores_delete_result [OF _ g d] by (simp add: http_status_def)
qed

text \<open>
  Claim C2. For a positive id, Get signals not-found if and only if the store holds no
  record with that id; when the store holds a record with that id, Get returns that
  record, with all its fields, and leaves the store as it is.
\<close>
theorem read_summary_not_found_iff:
  assumes "0 < i"
  shows "(fst (read_summary storage_crud i db) = Inl SummaryNotFoundException
            \<longleftrightarrow> i \<notin> rec_id ` set (records db)) \<and>
         (storage_ok db \<longrightarrow>
            (\<forall>r \<in> set (records db). rec_id r = i \<longrightarrow> read_summary storage_crud i db = (Inr r, db)))"
proof -
  have "fst (read_summary storage_crud i db) = Inl SummaryNotFoundException
          \<longleftrightarrow> i \<notin> rec_id ` set (records db)"
  proof -
    have "find (\<lambda>r. rec_id r = i) (records db) = None \<longleftrightarrow> i \<notin> rec_id ` set (records db)"
      by (auto simp: find_None_iff)
    then show ?thesis
      using assms by (auto simp: read_summary_storage split: option.splits)
  qed
  moreover have "read_summary storage_crud i db = (Inr r, db)"
    if "storage_ok db" "r \<in> set (records db)" "rec_id r = i" for r
    using storage_ok_present [OF that(1,2)] that(3) assms by (simp add: read_summary_storage)
  ultimately show ?thesis by blast
qed

theorem read_summary_not_found_iff_witness:
  "(0::int) < 1 \<and> storage_ok example_storage \<and> example_record \<in> set (records example_storage) \<and>
   rec_id example_record = 1 \<and>
   read_summary storage_crud 1 example_storage = (Inr example_record, example_storage) \<and>
   fst (read_summary storage_crud 1 empty_storage) = Inl SummaryNotFoundException \<and>
   1 \<notin> rec_id ` set (records empty_storage)"
  using read_summary_not_found_iff [of 1 example_storage]
    read_summary_not_found_iff [of 1 empty_storage] example_storage_ok
  by (simp add: example_storage_def example_record_def empty_storage_def)


text \<open>
  Claim C3. For a record of the store, Delete of its id answers with that record as it
  was just before the removal (the record Get returned then), and removes it: the store
  afterwards holds every other record and not this one, and Get of the id signals
  not-found.
\<close>

theorem remove_summary_then_not_found:
  assumes "storage_ok db" and "r \<in> set (records db)"
  shows "fst (remove_summary storage_crud (rec_id r) db) = Inr r \<and>
         fst (read_summary storage_crud (rec_id r) db) = Inr r \<and>
         fst (read_summary storage_crud (rec_id r)
                (snd (remove_summary storage_crud (rec_id r) db))) =
           Inl SummaryNotFoundException \<and>
         set (records (snd (remove_summary storage_crud (rec_id r) db))) = set (records db) - {r}"
proof -
  note p = storage_ok_present [OF assms]
  have d: "distinct (map rec_id (records db))"
    using assms(1) by (simp add: storage_ok_def)
  have rm: "remove_summary storage_crud (rec_id r) db =
      (Inr r, db\<lparr>records := filter (\<lambda>x. rec_id x \<noteq> rec_id r) (records db)\<rparr>)"
    using p by (simp add: remove_summary_storage)
  have "find (\<lambda>x. rec_id x = rec_id r) (filter (\<lambda>x. rec_id x \<noteq> rec_id r) (records db)) = None"
    by (simp add: find_None_iff)
  then have "fst (read_summary storage_crud (rec_id r)
                (snd (remove_summary storage_crud (rec_id r) db))) =
           Inl SummaryNotFoundException"
    using p by (simp add: rm read_summary_storage)
  moreover have "set (filter (\<lambda>x. rec_id x \<noteq> rec_id r) (records db)) = set (records db) - {r}"
    using same_id_same_record [OF d assms(2)] by auto
  ultimately show ?thesis
    using p by (simp add: rm read_summary_storage)
qed

theorem remove_summary_then_not_found_witness:
  "storage_ok example_storage \<and> example_record \<in> set (records example_storage) \<and>
   fst (remove_summary storage_crud 1 example_storage) = Inr example_record \<and>
   fst (read_summary storage_crud 1 example_storage) = Inr example_record \<and>
   fst (read_summary storage_crud 1 (snd (remove_summary storage_crud 1 example_storage))) =
     Inl SummaryNotFoundException \<and>
   set (records (snd (remove_summary storage_crud 1 example_storage))) = {}"
proof -
  have m: "example_record \<in> set (records example_storage)"
    by (simp add: example_storage_def)
  have i: "rec_id example_record = 1"
    by (simp add: example_record_def)
  show ?thesis
    using remove_summary_then_not_found [OF example_storage_ok m] example_storage_ok m
    by (simp add: i example_storage_def)
qed

text \<open>
  Claim C4. For a record of the store and any two strings \<open>u2\<close> and \<open>s2\<close>, Update of its
  id answers with the record whose url is \<open>u2\<close> and whose summary is \<open>s2\<close> (id and
  creation time as before); the store afterwards holds this record in place of the old
  one, every other record as it was, and Get of the id returns it.
\<close>

theorem update_summary_overwrites_both:
  assumes "storage_ok db" and "r \<in> set (records db)"
  shows "fst (update_summary storage_crud (rec_id r) \<lparr>new_url = u2, new_summary = s2\<rparr> db) =
           Inr (r\<lparr>rec_url := u2, rec_summary := s2\<rparr>) \<and>
         fst (read_summary storage_crud (rec_id r)
                (snd (update_summary storage_crud (rec_id r) \<lparr>new_url = u2, new_summary = s2\<rparr> db))) =
           Inr (r\<lparr>rec_url := u2, rec_summary := s2\<rparr>) \<and>
         records (snd (update_summary storage_crud (rec_id r) \<lparr>new_url = u2, new_summary = s2\<rparr> db)) =
           map (\<lambda>x. if x = r then r\<lparr>rec_url := u2, rec_summary := s2\<rparr> else x) (records db)"
proof -
  let ?p = "\<lparr>new_url = u2, new_summary = s2\<rparr>"
  note p = storage_ok_present [OF assms]
  have d: "distinct (map rec_id (records db))"
    using assms(1) by (simp add: storage_ok_def)
  have o: "overwrite ?p r = r\<lparr>rec_url := u2, rec_summary := s2\<rparr>"
    by (simp add: overwrite_def)
  have up: "update_summary storage_crud (rec_id r) ?p db =
      (Inr (overwrite ?p r),
       db\<lparr>records := map (\<lambda>x. if rec_id x = rec_id r then overwrite ?p x else x) (records db)\<rparr>)"
    using p by (simp add: update_summary_storage)
  have m: "map (\<lambda>x. if rec_id x = rec_id r then overwrite ?p x else x) (records db) =
           map (\<lambda>x. if x = r then overwrite ?p r else x) (records db)"
    using same_id_same_record [OF d assms(2)] by (intro map_cong) auto
  have g: "fst (read_summary storage_crud (rec_id r) (snd (update_summary storage_crud (rec_id r) ?p db))) =
           Inr (overwrite ?p r)"
    using p by (simp add: up read_summary_storage find_map_overwrite)
  have "records (snd (update_summary storage_crud (rec_id r) ?p db)) =
          map (\<lambda>x. if x = r then r\<lparr>rec_url := u2, rec_summary := s2\<rparr> else x) (records db)"
    using m by (simp add: up o)
  moreover have "fst (update_summary storage_crud (rec_id r) ?p db) =
          Inr (r\<lparr>rec_url := u2, rec_summary := s2\<rparr>)"
    by (simp add: up o)
  ultimately show ?thesis
    using g [unfolded o] by blast
qed

theorem update_summary_overwrites_both_witness:
  "storage_ok example_storage \<and> example_record \<in> set (records example_storage) \<and>
   fst (update_summary storage_crud 1 \<lparr>new_url = ''https://foo.bar'', new_summary = ''updated''\<rparr>
          example_storage) =
     Inr \<lparr>rec_id = 1, rec_url = ''https://foo.bar'', rec_summary = ''updated'', rec_created_at = 0\<rparr> \<and>
   records (snd (update_summary storage_crud 1
                   \<lparr>new_url = ''https://foo.bar'', new_summary = ''updated''\<rparr> example_storage)) =
     [\<lparr>rec_id = 1, rec_url = ''https://foo.bar'', rec_summary = ''updated'', rec_created_at = 0\<rparr>]"
proof -
  have m: "example_record \<in> set (records example_storage)"
    by (simp add: example_storage_def)
  have i: "rec_id example_record = 1"
    by (simp add: example_record_def)
  show ?thesis
    using update_summary_overwrites_both [OF example_storage_ok m, of "''https://foo.bar''" "''updated''"]
      example_storage_ok m
    by (simp add: i) (simp add: example_storage_def example_record_def)
qed

text \<open>
  Claim C5, as stated, fails: the id 0 is in no store, and Get, Update and Delete of it
  are rejected by the validation of the path parameter, not with not-found.
\<close>

theorem absent_id_zero_is_not_not_found:
  "0 \<notin> rec_id ` set (records empty_storage) \<and>
   read_summary storage_crud 0 empty_storage = (Inl RequestValidationError, empty_storage) \<and>
   update_summary storage_crud 0 \<lparr>new_url = ''u'', new_summary = ''s''\<rparr> empty_storage =
     (Inl RequestValidationError, empty_storage) \<and>
   remove_summary storage_crud 0 empty_storage = (Inl RequestValidationError, empty_storage) \<and>
   fst (read_summary storage_crud 0 empty_storage) \<noteq> Inl SummaryNotFoundException"
  by (simp add: read_summary_def update_summary_def remove_summary_def empty_storage_def)

text \<open>
  Claim C5, amended. For every positive id that no record of the store has, Get, Update
  and Delete each signal not-found and return the store unchanged.
\<close>

theorem absent_positive_id_not_found:
  assumes "0 < i" and "i \<notin> rec_id ` set (records db)"
  shows "read_summary storage_crud i db = (Inl SummaryNotFoundException, db) \<and>
         update_summary storage_crud i payload db = (Inl SummaryNotFoundException, db) \<and>
         remove_summary storage_crud i db = (Inl SummaryNotFoundException, db)"
  using assms find_absent [OF assms(2)]
  by (simp add: read_summary_storage update_summary_storage remove_summary_storage)

theorem absent_positive_id_not_found_witness:
  "(0::int) < 999 \<and> 999 \<notin> rec_id ` set (records example_storage) \<and>
   read_summary storage_crud 999 example_storage = (Inl SummaryNotFoundException, example_storage) \<and>
   update_summary storage_crud 999 \<lparr>new_url = ''u'', new_summary = ''s''\<rparr> example_storage =
     (Inl SummaryNotFoundException, example_storage) \<and>
   remove_summary storage_crud 999 example_storage = (Inl SummaryNotFoundException, example_storage)"
proof -
  have a: "999 \<notin> rec_id ` set (records example_storage)"
    by (simp add: example_storage_def example_record_def)
  show ?thesis
    using a absent_positive_id_not_found [OF _ a, of "\<lparr>new_url = ''u'', new_summary = ''s''\<rparr>"]
    by simp
qed

text \<open>
  Claim C9, as stated, fails: the body of the DELETE response for the record of the
  example has the four fields of a summary, not only id and url.
\<close>

theorem remove_summary_body_not_id_url:
  "example_record \<in> set (records example_storage) \<and>
   response_body (fst (remove_summary storage_crud 1 example_storage)) =
     Inr [(''id'', Json_int 1), (''url'', Json_str ''https://example.com''),
          (''summary'', Json_str []), (''created_at'', Json_datetime 0)] \<and>
   set (map fst (SummarySchema_body example_record)) \<noteq> {''id'', ''url''}"
proof -
  have "''summary'' \<in> set (map fst (SummarySchema_body example_record))"
    by (simp add: SummarySchema_body_def)
  moreover have "''summary'' \<notin> {''id'', ''url''}"
    by simp
  ultimately have "set (map fst (SummarySchema_body example_record)) \<noteq> {''id'', ''url''}"
    by metis
  then show ?thesis
    by (simp add: remove_summary_storage response_body_def SummarySchema_body_def
        example_storage_def example_record_def)
qed

text \<open>
  Claim C9, amended. When the lookup of a (positive) id succeeds, the DELETE response has
  status 200 and its body is the looked-up record under the route's response model
  \<^verbatim>\<open>SummarySchema\<close>: the fields id, url, summary and created_at of the record as it
  was before the removal, the same body that GET sends for it.
\<close>

theorem remove_summary_response_body:
  assumes "0 < i" and "crud_get crud i db = (Some s, db1)"
  shows "response_body (fst (remove_summary crud i db)) =
           Inr [(''id'', Json_int (rec_id s)), (''url'', Json_str (rec_url s)),
                (''summary'', Json_str (rec_summary s)),
                (''created_at'', Json_datetime (rec_created_at s))] \<and>
         http_status 200 (fst (remove_summary crud i db)) = 200 \<and>
         response_body (fst (remove_summary crud i db)) = response_body (fst (read_summary crud i db))"
  using assms
  by (simp add: remove_summary_def read_summary_def response_body_def SummarySchema_body_def
      http_status_def split: prod.splits)

theorem remove_summary_response_body_witness:
  "(0::int) < 1 \<and>
   crud_get storage_crud 1 example_storage = (Some example_record, example_storage) \<and>
   response_body (fst (remove_summary storage_crud 1 example_storage)) =
     Inr [(''id'', Json_int 1), (''url'', Json_str ''https://example.com''),
          (''summary'', Json_str []), (''created_at'', Json_datetime 0)] \<and>
   http_status 200 (fst (remove_summary storage_crud 1 example_storage)) = 200"
proof -
  have g: "crud_get storage_crud 1 example_storage = (Some example_record, example_storage)"
    by (simp add: storage_get_def example_storage_def example_record_def)
  show ?thesis
    using g remove_summary_response_body [OF _ g]
    by (simp add: example_record_def)
qed


lemma initial_system_ok: "storage_ok (sys_db initial_system)"
  by (simp add: initial_system_def empty_storage_ok)

text \<open>
  The invariant of the store holds in every state the service reaches from the empty
  store: the ids of its records are unique and positive.
\<close>

lemma reachable_storage_ok:
  "run summarize reqs initial_system = (replies, s) \<Longrightarrow> storage_ok (sys_db s)"
  by (rule run_ok [OF initial_system_ok])

text \<open>
  Claim C7. In every state the service reaches from the empty store, by any sequence of
  requests, background runs and clock ticks, GetAll returns all the records of the
  store: their ids are, in order of creation, the ids the creates assigned that no
  delete has removed, and their number is the number of creates minus the number of
  deletes performed (the deletes that answered with a record; a delete that signals an
  error removes nothing). The handler itself returns what the persistence's get-all
  returns, with no pagination, filtering or limit.
\<close>

theorem read_all_summaries_created_minus_deleted:
  assumes "run summarize reqs initial_system = (replies, s)"
  shows "read_all_summaries crud db = crud_get_all crud db \<and>
         fst (read_all_summaries storage_crud (sys_db s)) = records (sys_db s) \<and>
         map rec_id (fst (read_all_summaries storage_crud (sys_db s))) =
           filter (\<lambda>i. i \<notin> set (deleted_ids replies)) (created_ids replies) \<and>
         deletes replies \<le> creates replies \<and>
         length (fst (read_all_summaries storage_crud (sys_db s))) = creates replies - deletes replies"
proof -
  have e: "records (sys_db initial_system) = []"
    by (simp add: initial_system_def empty_storage_def)
  have ids: "map rec_id (records (sys_db s)) =
      filter (\<lambda>i. i \<notin> set (deleted_ids replies)) (created_ids replies)"
    using run_ids [OF initial_system_ok assms] by (simp add: e)
  have len: "int (length (records (sys_db s))) = int (creates replies) - int (deletes replies)"
    using run_length [OF initial_system_ok assms] by (simp add: e)
  then have "deletes replies \<le> creates replies"
    and "length (records (sys_db s)) = creates replies - deletes replies"
    by linarith+
  then show ?thesis
    using ids by (simp add: read_all_summaries_def storage_get_all_def)
qed

lemma example_run:
  "run example_summarize [Create example_payload, Create example_payload, Background 0, Delete 1]
     initial_system =
     ([Created \<lparr>response_url = ''https://example.com'', response_id = 1,
                response_summarizer_specifier = ''default'', response_sentence_count = 3\<rparr>,
       Created \<lparr>response_url = ''https://example.com'', response_id = 2,
                response_summarizer_specifier = ''default'', response_sentence_count = 3\<rparr>,
       Idle,
       Deleted (Inr \<lparr>rec_id = 1, rec_url = ''https://example.com'', rec_summary = ''text'',
                     rec_created_at = 0\<rparr>)],
      \<lparr>sys_db = \<lparr>records = [\<lparr>rec_id = 2, rec_url = ''https://example.com'', rec_summary = [],
                              rec_created_at = 0\<rparr>],
                  next_id = 3, clock = 0\<rparr>,
        sys_pending = [generate_summary_call 2 ''https://example.com'' ''default'' 3]\<rparr>)"
  by (simp add: initial_system_def empty_storage_def example_payload_def example_summarize_def
      create_summary_storage remove_summary_storage generate_summary_def storage_put_def
      overwrite_def)

theorem read_all_summaries_created_minus_deleted_witness:
  "run example_summarize [Create example_payload, Create example_payload, Background 0, Delete 1]
     initial_system =
     ([Created \<lparr>response_url = ''https://example.com'', response_id = 1,
                response_summarizer_specifier = ''default'', response_sentence_count = 3\<rparr>,
       Created \<lparr>response_url = ''https://example.com'', response_id = 2,
                response_summarizer_specifier = ''default'', response_sentence_count = 3\<rparr>,
       Idle,
       Deleted (Inr \<lparr>rec_id = 1, rec_url = ''https://example.com'', rec_summary = ''text'',
                     rec_created_at = 0\<rparr>)],
      \<lparr>sys_db = \<lparr>records = [\<lparr>rec_id = 2, rec_url = ''https://example.com'', rec_summary = [],
                              rec_created_at = 0\<rparr>],
                  next_id = 3, clock = 0\<rparr>,
        sys_pending = [generate_summary_call 2 ''https://example.com'' ''default'' 3]\<rparr>) \<and>
   map rec_id (fst (read_all_summaries storage_crud
      \<lparr>records = [\<lparr>rec_id = 2, rec_url = ''https://example.com'', rec_summary = [],
                   rec_created_at = 0\<rparr>],
       next_id = 3, clock = 0\<rparr>)) = [2] \<and>
   length (fst (read_all_summaries storage_crud
      \<lparr>records = [\<lparr>rec_id = 2, rec_url = ''https://example.com'', rec_summary = [],
                   rec_created_at = 0\<rparr>],
       next_id = 3, clock = 0\<rparr>)) = 2 - 1"
  using read_all_summaries_created_minus_deleted [OF example_run, of storage_crud empty_storage]
    example_run
  by (simp add: creates_def deletes_def)

text \<open>
  Claim C1. In every state the service reaches from a well-formed store, Create answers,
  for every payload, with the url, summarizer specifier and sentence count of the
  payload and with the id the insert assigned. That id belongs to no record of the store, to no record of the
  store the run started from, and to no record created during the run (deleted or not).
  The answer holds no summary text: it is made of the payload and the id alone, the id
  is the starting next id plus the number of creates so far, and the inserted record has
  the empty summary.
\<close>

theorem create_summary_echoes_with_fresh_id:
  assumes "storage_ok (sys_db s0)" and "run summarize reqs s0 = (replies, s)"
  shows "fst (fst (create_summary storage_crud payload background_tasks (sys_db s))) =
           \<lparr>response_url = payload_url payload, response_id = next_id (sys_db s),
            response_summarizer_specifier = payload_summarizer_specifier payload,
            response_sentence_count = payload_sentence_count payload\<rparr> \<and>
         next_id (sys_db s) \<notin> rec_id ` set (records (sys_db s)) \<and>
         next_id (sys_db s) \<notin> rec_id ` set (records (sys_db s0)) \<and>
         next_id (sys_db s) \<notin> set (created_ids replies) \<and>
         next_id (sys_db s) = next_id (sys_db s0) + int (creates replies) \<and>
         records (snd (create_summary storage_crud payload background_tasks (sys_db s))) =
           records (sys_db s) @
             [\<lparr>rec_id = next_id (sys_db s), rec_url = payload_url payload, rec_summary = [],
               rec_created_at = clock (sys_db s)\<rparr>]"
proof -
  note nx = run_next_id [OF assms(2)]
  have ok: "storage_ok (sys_db s)"
    by (rule run_ok [OF assms])
  have a: "next_id (sys_db s) \<notin> rec_id ` set (records (sys_db s))"
    using ok by (auto simp: storage_ok_def)
  have b: "next_id (sys_db s) \<notin> rec_id ` set (records (sys_db s0))"
    using assms(1) nx by (auto simp: storage_ok_def)
  have c: "next_id (sys_db s) \<notin> set (created_ids replies)"
    using nx by auto
  show ?thesis
    using a b c nx by (simp add: create_summary_storage creates_def)
qed

theorem create_summary_echoes_with_fresh_id_witness:
  "storage_ok (sys_db initial_system) \<and>
   run example_summarize [Create example_payload, Create example_payload, Background 0, Delete 1]
     initial_system =
     ([Created \<lparr>response_url = ''https://example.com'', response_id = 1,
                response_summarizer_specifier = ''default'', response_sentence_count = 3\<rparr>,
       Created \<lparr>response_url = ''https://example.com'', response_id = 2,
                response_summarizer_specifier = ''default'', response_sentence_count = 3\<rparr>,
       Idle,
       Deleted (Inr \<lparr>rec_id = 1, rec_url = ''https://example.com'', rec_summary = ''text'',
                     rec_created_at = 0\<rparr>)],
      \<lparr>sys_db = \<lparr>records = [\<lparr>rec_id = 2, rec_url = ''https://example.com'', rec_summary = [],
                              rec_created_at = 0\<rparr>],
                  next_id = 3, clock = 0\<rparr>,
        sys_pending = [generate_summary_call 2 ''https://example.com'' ''default'' 3]\<rparr>) \<and>
   fst (fst (create_summary storage_crud example_payload []
      \<lparr>records = [\<lparr>rec_id = 2, rec_url = ''https://example.com'', rec_summary = [],
                   rec_created_at = 0\<rparr>],
       next_id = 3, clock = 0\<rparr>)) =
     \<lparr>response_url = ''https://example.com'', response_id = 3,
      response_summarizer_specifier = ''default'', response_sentence_count = 3\<rparr> \<and>
   (3::int) \<notin> set [1, 2]"
  using create_summary_echoes_with_fresh_id [OF initial_system_ok example_run, of example_payload "[]"]
    initial_system_ok example_run
  by (simp add: example_payload_def)

end
